theory Spec2Isabelle
  imports Main
begin

section \<open>Values shared by the media bloks\<close>

text \<open>
  Python \<open>bytes\<close> and \<open>str\<close> are both lists of \<open>char\<close> here. A keyword argument or
  a column that is absent or \<open>None\<close> is \<open>None\<close>; Python tests such values for truth
  (\<open>filter(None, ...)\<close>, \<open>if not x\<close>), where \<open>None\<close>, \<open>b""\<close> and \<open>""\<close> are false.
\<close>

type_synonym bytes = string

definition truthy :: "string option \<Rightarrow> bool" where
  "truthy x = (case x of None \<Rightarrow> False | Some v \<Rightarrow> v \<noteq> [])"

text \<open>The content of the Jsonb columns \<open>meta\<close> and \<open>properties\<close>; a dict keeps its insertion order.\<close>

datatype jvalue =
    JNull
  | JInt int
  | JStr string
  | JList "jvalue list"
  | JDict "(string \<times> jvalue) list"

text \<open>
  Every exception the modelled methods can raise. The source raises the plain \<open>Exception\<close>
  class with a message for the first three and for \<open>NoFilename\<close>; the constructors keep
  the messages apart.
\<close>

datatype error =
    MediaTypeNotSet
  | NoSourceFieldSet
  | TooMuchSourceFields
  | NoFilename
  | MissingSourceDiskStoragePattern
  | MissingSourcePathPrefix
  | AttributeError
  | ValueError
  | KeyError
  | TypeError
  | ZeroDivisionError
  | RequestFailed string
  | OSError string
  | UnidentifiedImageError
  | RuntimeError
  | IntegrityError

section \<open>Model.Media\<close>

text \<open>
  The keyword arguments of \<open>create\<close> that the method reads, which are also the columns it
  passes to \<open>insert\<close>; a stored row extends them.
\<close>

record media_data =
  "file" :: "bytes option"
  file_path :: "string option"
  file_url :: "string option"
  filename :: "string option"

record media = media_data +
  uuid :: nat
  media_type :: string
  state :: string
  meta :: "(string \<times> jvalue) list"
  properties :: jvalue
  edit_date :: "(nat \<times> nat \<times> nat) option"

text \<open>The class constants a polymorphic class sets; an attribute the class never declares is \<open>None\<close>
  at the outer level of \<open>SOURCE_DISK_STORAGE_PATTERN\<close> (the base class does not declare it).\<close>

record media_class =
  MEDIA_TYPE :: "string option"
  SOURCE_STORAGE_STRATEGY :: "string option"
  SOURCE_DISK_STORAGE_PATTERN :: "string option option"

record tag =
  tag_uuid :: nat
  name :: string
  tag_media_type :: string

text \<open>An audio or video file as the \<open>mediafile\<close> library shows it: its duration and its fields.\<close>

record mediafile =
  mf_length :: int
  mf_fields :: "(string \<times> jvalue) list"

text \<open>A decoded image as far as the transformations look at it: its size in pixels.\<close>

record pil_image =
  width :: int
  height :: int

text \<open>
  Everything outside the methods: the network, the file system, the clock, the AnyBlok
  configuration, the library functions \<open>slugify\<close> and \<open>str.format\<close>, and the tables of the
  registry. \<open>requests_get\<close>, \<open>urlopen\<close>, \<open>files\<close> and \<open>media_files\<close> give \<open>None\<close> where the
  call raises; \<open>can_open_wb p\<close> tells whether \<open>open(p, "wb")\<close> succeeds (it depends on the
  directory, which \<open>os.makedirs\<close> may have failed to create: that failure is only logged),
  \<open>can_write p\<close> whether the operating system takes the bytes written to it. The file
  object that \<open>open\<close> gives is buffered: \<open>write_through\<close> is the payload length from which
  its \<open>write\<close> hands the bytes to the operating system at once (the buffer size, 8192 by
  default); a shorter payload stays in the buffer until the file is closed. \<open>pil_open\<close>
  decodes an image
  (\<open>None\<close>: the bytes are no image), \<open>pil_save\<close> encodes one in a format (\<open>None\<close>: it
  raises), \<open>pil_thumbnail\<close> is the \<open>thumbnail\<close> method of Pillow and \<open>pyexiv2_modify\<close> writes
  Exif and XMP entries into encoded bytes.
\<close>

record world =
  requests_get :: "string \<Rightarrow> bytes option"
  urlopen :: "string \<Rightarrow> bytes option"
  files :: "string \<Rightarrow> bytes option"
  can_open_wb :: "string \<Rightarrow> bool"
  can_write :: "string \<Rightarrow> bool"
  write_through :: nat
  now :: "nat \<times> nat \<times> nat"
  source_path_prefix :: "string option"
  media_path_prefix :: "string option"
  slugify :: "string \<Rightarrow> string"
  str_format :: "string \<Rightarrow> (string \<times> jvalue) list \<Rightarrow> string option"
  media_table :: "media list"
  tag_table :: "tag list"
  media_tag_table :: "(nat \<times> nat) list"
  media_files :: "string \<Rightarrow> mediafile option"
  next_uuid :: nat
  path_exists :: "string \<Rightarrow> bool"
  can_makedirs :: "string \<Rightarrow> bool"
  pil_open :: "bytes \<Rightarrow> pil_image option"
  pil_save :: "pil_image \<Rightarrow> jvalue \<Rightarrow> bytes option"
  pil_thumbnail :: "pil_image \<Rightarrow> int \<times> int \<Rightarrow> pil_image"
  pyexiv2_modify :: "bytes \<Rightarrow> (string \<times> jvalue) list \<Rightarrow> (string \<times> jvalue) list \<Rightarrow> bytes option"

definition SOURCE_STORAGE_STRATEGIES :: "string list" where
  "SOURCE_STORAGE_STRATEGIES = [''database'', ''disk'']"

definition get_source_storage_strategy :: "media_class \<Rightarrow> string option" where
  "get_source_storage_strategy cls =
     (if \<not> truthy (SOURCE_STORAGE_STRATEGY cls) then None
      else if the (SOURCE_STORAGE_STRATEGY cls) \<notin> set SOURCE_STORAGE_STRATEGIES then None
      else SOURCE_STORAGE_STRATEGY cls)"

subsection \<open>String helpers of Python used by the methods\<close>

text \<open>\<open>str.lower\<close> and \<open>str.strip\<close> on ASCII text: the letters \<open>A\<close> to \<open>Z\<close> are lowered, and
  the characters that \<open>str.isspace\<close> accepts are stripped from both ends.\<close>

definition lower_char :: "char \<Rightarrow> char" where
  "lower_char c =
     (let n = (of_char c :: nat) in if 65 \<le> n \<and> n \<le> 90 then char_of (n + 32) else c)"

definition lower :: "string \<Rightarrow> string" where
  "lower s = map lower_char s"

definition is_space :: "char \<Rightarrow> bool" where
  "is_space c = ((of_char c :: nat) \<in> {9, 10, 11, 12, 13, 28, 29, 30, 31, 32})"

definition strip :: "string \<Rightarrow> string" where
  "strip s = rev (dropWhile is_space (rev (dropWhile is_space s)))"

text \<open>\<open>s.split(sep)\<close> for a one-character separator: always at least one piece.\<close>

fun split_on :: "char \<Rightarrow> string \<Rightarrow> string list" where
  "split_on sep [] = [[]]"
| "split_on sep (c # cs) =
     (if c = sep then [] # split_on sep cs
      else (case split_on sep cs of
              [] \<Rightarrow> [[c]]
            | p # ps \<Rightarrow> (c # p) # ps))"

text \<open>\<open>os.path.split(p)[-1]\<close>: what follows the last slash.\<close>

definition basename :: "string \<Rightarrow> string" where
  "basename p = rev (takeWhile (\<lambda>c. c \<noteq> CHR ''/'') (rev p))"

text \<open>\<open>slugify_filename\<close> with \<open>random_suffix=False\<close>, the only way \<open>create\<close> calls it.\<close>

definition slugify_filename :: "world \<Rightarrow> string \<Rightarrow> string" where
  "slugify_filename w fname =
     (let filename_split = split_on CHR ''.'' (lower fname);
          extension = last filename_split;
          name = concat (butlast filename_split)
      in slugify w name @ ''.'' @ extension)"

subsection \<open>create\<close>

text \<open>Lines 233 to 251: a remote or local source is read into \<open>data["file"]\<close>, and the
  file name defaults to the last component of the url or path.\<close>

definition read_source :: "world \<Rightarrow> media_data \<Rightarrow> error + media_data" where
  "read_source w data =
     (if truthy (file_url data) then
        (case requests_get w (the (file_url data)) of
           None \<Rightarrow> Inl (RequestFailed (the (file_url data)))
         | Some content \<Rightarrow>
             Inr (data\<lparr>file := Some content,
                       filename := (if \<not> truthy (filename data)
                                    then Some (basename (the (file_url data)))
                                    else filename data)\<rparr>))
      else if truthy (file_path data) then
        (case files w (the (file_path data)) of
           None \<Rightarrow> Inl (OSError (the (file_path data)))
         | Some content \<Rightarrow>
             Inr (data\<lparr>file := Some content,
                       filename := (if \<not> truthy (filename data)
                                    then Some (basename (the (file_path data)))
                                    else filename data)\<rparr>))
      else Inr data)"

text \<open>Lines 257 to 295: \<open>file\<close> is popped from \<open>data\<close>, the configuration is checked and the
  destination path is computed from the pattern.\<close>

definition compute_source_path :: "media_class \<Rightarrow> world \<Rightarrow> media_data \<Rightarrow> error + media_data \<times> string" where
  "compute_source_path cls w data =
     (case SOURCE_DISK_STORAGE_PATTERN cls of
        None \<Rightarrow> Inl AttributeError
      | Some source_path_pattern \<Rightarrow>
          if \<not> truthy source_path_pattern then Inl MissingSourceDiskStoragePattern
          else if \<not> truthy (source_path_prefix w) then Inl MissingSourcePathPrefix
          else if \<not> truthy (filename data) then Inl NoFilename
          else
            (let data1 = data\<lparr>filename := Some (slugify_filename w (the (filename data)))\<rparr>
             in case split_on CHR ''.'' (the (filename data1)) of
                  [fname, extension] \<Rightarrow>
                    (case str_format w (the source_path_pattern)
                            [(''source_path_prefix'', JStr (the (source_path_prefix w))),
                             (''year'', JInt (int (fst (now w)))),
                             (''month'', JInt (int (fst (snd (now w))))),
                             (''day'', JInt (int (snd (snd (now w))))),
                             (''filename'', JStr fname),
                             (''extension'', JStr extension)] of
                       None \<Rightarrow> Inl KeyError
                     | Some source_path \<Rightarrow> Inr (data1, source_path))
                | _ \<Rightarrow> Inl ValueError))"

text \<open>
  Lines 316 to 328. The \<open>with\<close> statement opens the file (mode \<open>wb\<close> truncates it) and
  closes it at its end; only \<open>destf.write\<close> is inside the \<open>try\<close>. An error of \<open>open\<close> is
  not caught. When the operating system refuses the bytes, a payload of at least
  \<open>write_through\<close> bytes fails inside \<open>write\<close>: that \<open>OSError\<close> is caught and logged,
  \<open>data["file_path"]\<close> is not set, and the method goes on. A shorter payload was only put
  into the buffer by \<open>write\<close>: the \<open>OSError\<close> comes from the close at the end of the
  \<open>with\<close> statement, outside the \<open>try\<close>, and leaves the method. What a refused write
  leaves in the file beyond the truncation is not modelled.
\<close>

definition write_source :: "world \<Rightarrow> media_data \<Rightarrow> bytes \<Rightarrow> string \<Rightarrow> (error + media_data) \<times> world" where
  "write_source w data content source_path =
     (if source_path = [] \<or> \<not> can_open_wb w source_path then (Inl (OSError source_path), w)
      else if can_write w source_path
        then (Inr (data\<lparr>file_path := Some source_path\<rparr>),
              w\<lparr>files := (files w)(source_path := Some content)\<rparr>)
      else if length content < write_through w
        then (Inl (OSError source_path), w\<lparr>files := (files w)(source_path := Some [])\<rparr>)
        else (Inr data, w\<lparr>files := (files w)(source_path := Some [])\<rparr>))"

definition store_source :: "media_class \<Rightarrow> world \<Rightarrow> media_data \<Rightarrow> (error + media_data) \<times> world" where
  "store_source cls w data =
     (if truthy (file data) then
        (if get_source_storage_strategy cls = Some ''database'' then (Inr data, w)
         else if get_source_storage_strategy cls = Some ''disk'' then
           (case compute_source_path cls w (data\<lparr>file := None\<rparr>) of
              Inl e \<Rightarrow> (Inl e, w)
            | Inr (data1, source_path) \<Rightarrow> write_source w data1 (the (file data)) source_path)
         else (Inr data, w))
      else (Inr data, w))"

text \<open>\<open>cls.insert(**data)\<close>: the row gets a fresh identifier, the polymorphic identity of the
  class, the default state of the workflow and the column defaults.\<close>

definition insert_media :: "media_class \<Rightarrow> world \<Rightarrow> media_data \<Rightarrow> media \<times> world" where
  "insert_media cls w data =
     (let rec = \<lparr>file = file data, file_path = file_path data, file_url = file_url data,
                 filename = filename data, uuid = next_uuid w,
                 media_type = the (MEDIA_TYPE cls), state = ''draft'', meta = [],
                 properties = JDict [], edit_date = None\<rparr>
      in (rec, w\<lparr>media_table := media_table w @ [rec], next_uuid := Suc (next_uuid w)\<rparr>))"

definition create :: "media_class \<Rightarrow> world \<Rightarrow> media_data \<Rightarrow> (error + media) \<times> world" where
  "create cls w kwargs =
     (let data = kwargs;
          file_fields = filter truthy [file data, file_url data, file_path data]
      in if \<not> truthy (MEDIA_TYPE cls) then (Inl MediaTypeNotSet, w)
         else if length file_fields = 0 then (Inl NoSourceFieldSet, w)
         else if length file_fields > 1 then (Inl TooMuchSourceFields, w)
         else
           (case read_source w data of
              Inl e \<Rightarrow> (Inl e, w)
            | Inr data1 \<Rightarrow>
                (case store_source cls w data1 of
                   (Inl e, w1) \<Rightarrow> (Inl e, w1)
                 | (Inr data2, w1) \<Rightarrow>
                     (case insert_media cls w1 data2 of (rec, w2) \<Rightarrow> (Inr rec, w2)))))"

subsection \<open>Reading the source of an existing record\<close>

definition get_source_file_field :: "media \<Rightarrow> string option" where
  "get_source_file_field self =
     (if truthy (file self) then Some ''file''
      else if truthy (file_url self) then Some ''file_url''
      else if truthy (file_path self) then Some ''file_path''
      else None)"

text \<open>The result is the content of the \<open>BytesIO\<close> stream, or \<open>None\<close> when no source is set.\<close>

definition get_source_bytes :: "world \<Rightarrow> media \<Rightarrow> error + bytes option" where
  "get_source_bytes w self =
     (case get_source_file_field self of
        None \<Rightarrow> Inr None
      | Some field \<Rightarrow>
          if field = ''file'' then Inr (file self)
          else if field = ''file_path'' then
            (case files w (the (file_path self)) of
               None \<Rightarrow> Inl (OSError (the (file_path self)))
             | Some bits \<Rightarrow> Inr (Some bits))
          else if field = ''file_url'' then
            (case urlopen w (the (file_url self)) of
               None \<Rightarrow> Inl (RequestFailed (the (file_url self)))
             | Some bits \<Rightarrow> Inr (Some bits))
          else Inr None)"

text \<open>\<open>self.tags\<close>: the rows of \<open>Tag\<close> that the join table \<open>MediaTag\<close> links to the record.\<close>

definition tags :: "world \<Rightarrow> media \<Rightarrow> tag list" where
  "tags w self = filter (\<lambda>t. (uuid self, tag_uuid t) \<in> set (media_tag_table w)) (tag_table w)"

section \<open>Model.Media.Audio and Model.Media.Video\<close>

definition audio_process :: "media \<Rightarrow> media" where
  "audio_process self = (if state self \<noteq> ''published'' then self\<lparr>state := ''published''\<rparr> else self)"

definition video_process :: "media \<Rightarrow> media" where
  "video_process self = (if state self \<noteq> ''published'' then self\<lparr>state := ''published''\<rparr> else self)"

section \<open>Model.Media.Image\<close>

record image_class = media_class +
  PROCESS_PARAMS :: "(string \<times> (string \<times> jvalue) list) list"
  DESTINATION_PATH_PATTERN :: string
  URL_PATTERN :: string

text \<open>\<open>d.get(k)\<close> on a dict.\<close>

definition dict_get :: "(string \<times> jvalue) list \<Rightarrow> string \<Rightarrow> jvalue" where
  "dict_get d k = (case map_of d k of None \<Rightarrow> JNull | Some v \<Rightarrow> v)"

definition opt_json :: "string option \<Rightarrow> jvalue" where
  "opt_json x = (case x of None \<Rightarrow> JNull | Some v \<Rightarrow> JStr v)"

text \<open>The record as \<open>str.format\<close> receives it under the key \<open>self\<close>.\<close>

definition self_json :: "media \<Rightarrow> jvalue" where
  "self_json self =
     JDict [(''uuid'', JInt (int (uuid self))), (''media_type'', JStr (media_type self)),
            (''filename'', opt_json (filename self)), (''state'', JStr (state self))]"

subsection \<open>The rendition plan\<close>

text \<open>One pass of the loop of \<open>format_transformation_properties\<close> (lines 224 to 262).\<close>

definition format_item :: "image_class \<Rightarrow> world \<Rightarrow> media \<Rightarrow> string \<Rightarrow> (string \<times> jvalue) list \<Rightarrow> error + jvalue" where
  "format_item cls w self nm item =
     (let size = dict_get item ''size'';
          width = dict_get item ''width'';
          height = dict_get item ''height'';
          extension = dict_get item ''extension'';
          file_format = dict_get item ''file_format'';
          transformation_mode = dict_get item ''transformation_mode'';
          year = JInt (int (fst (now w)));
          month = JInt (int (fst (snd (now w))));
          day = JInt (int (snd (snd (now w))))
      in case str_format w (DESTINATION_PATH_PATTERN cls)
                [(''self'', self_json self), (''name'', JStr nm),
                 (''media_path_prefix'', opt_json (media_path_prefix w)),
                 (''filename'', opt_json (filename self)), (''size'', size),
                 (''extension'', extension), (''year'', year), (''month'', month),
                 (''day'', day)] of
           None \<Rightarrow> Inl KeyError
         | Some path \<Rightarrow>
             (case str_format w (URL_PATTERN cls)
                     [(''self'', self_json self), (''name'', JStr nm),
                      (''filename'', opt_json (filename self)), (''width'', width),
                      (''height'', height), (''extension'', extension), (''year'', year),
                      (''month'', month), (''day'', day)] of
                None \<Rightarrow> Inl KeyError
              | Some url \<Rightarrow>
                  Inr (JDict [(''width'', width), (''height'', height), (''path'', JStr path),
                              (''url'', JStr url), (''file_format'', file_format),
                              (''transformation_mode'', transformation_mode),
                              (''extension'', extension)])))"

fun format_items :: "image_class \<Rightarrow> world \<Rightarrow> media \<Rightarrow> (string \<times> (string \<times> jvalue) list) list \<Rightarrow> error + (string \<times> jvalue) list" where
  "format_items cls w self [] = Inr []"
| "format_items cls w self ((nm, item) # params) =
     (case format_item cls w self nm item of
        Inl e \<Rightarrow> Inl e
      | Inr d \<Rightarrow>
          (case format_items cls w self params of
             Inl e \<Rightarrow> Inl e
           | Inr ds \<Rightarrow> Inr ((nm, d) # ds)))"

text \<open>\<open>JNull\<close> is the \<open>None\<close> the method returns, after a warning, when a constant is not set.\<close>

definition format_transformation_properties :: "image_class \<Rightarrow> world \<Rightarrow> media \<Rightarrow> error + jvalue" where
  "format_transformation_properties cls w self =
     (if PROCESS_PARAMS cls = [] then Inr JNull
      else if DESTINATION_PATH_PATTERN cls = [] then Inr JNull
      else if URL_PATTERN cls = [] then Inr JNull
      else (case format_items cls w self (PROCESS_PARAMS cls) of
              Inl e \<Rightarrow> Inl e
            | Inr ds \<Rightarrow> Inr (JDict ds)))"

subsection \<open>The three transformations\<close>

text \<open>
  \<open>int(a / b)\<close>: the true division of two integers, truncated toward zero. Python divides
  in floating point; for operands of the size of pixel counts the quotient truncates to the
  same integer as the exact one.
\<close>

definition trunc_div :: "int \<Rightarrow> int \<Rightarrow> int" where
  "trunc_div a b = sgn a * sgn b * (\<bar>a\<bar> div \<bar>b\<bar>)"

definition int_truediv :: "int \<Rightarrow> int \<Rightarrow> error + int" where
  "int_truediv a b = (if b = 0 then Inl ZeroDivisionError else Inr (trunc_div a b))"

text \<open>
  \<open>Image.resize\<close> of Pillow gives an image of the requested size: a copy when the size is
  the image's own, and \<open>ValueError\<close> for a width or height below one. \<open>Image.crop\<close> gives
  the box \<open>(left, upper, right, lower)\<close>, an image \<open>right - left\<close> wide and
  \<open>lower - upper\<close> high (an empty side where the difference is negative).
\<close>

definition pil_resize :: "pil_image \<Rightarrow> int \<times> int \<Rightarrow> error + pil_image" where
  "pil_resize img sz =
     (if (width img, height img) = sz then Inr img
      else if fst sz < 1 \<or> snd sz < 1 then Inl ValueError
      else Inr \<lparr>width = fst sz, height = snd sz\<rparr>)"

definition pil_crop :: "pil_image \<Rightarrow> int \<times> int \<times> int \<times> int \<Rightarrow> pil_image" where
  "pil_crop img box =
     (case box of (x0, y0, x1, y1) \<Rightarrow>
        \<lparr>width = max 0 (x1 - x0), height = max 0 (y1 - y0)\<rparr>)"

definition resize :: "pil_image \<Rightarrow> int \<times> int \<Rightarrow> error + pil_image" where
  "resize img sz = pil_resize img sz"

text \<open>\<open>__crop\<close>, lines 269 to 299: the size given to \<open>img.resize\<close>, the box given to
  \<open>generated.crop\<close>, and the method itself.\<close>

definition crop_resize_size :: "pil_image \<Rightarrow> int \<times> int \<Rightarrow> error + int \<times> int" where
  "crop_resize_size img sz =
     (let width = fst sz; height = snd sz
      in if pil_image.width img \<ge> pil_image.height img then
           (case int_truediv (height * pil_image.width img) (pil_image.height img) of
              Inl e \<Rightarrow> Inl e
            | Inr new_width \<Rightarrow> Inr (new_width, height))
         else
           (case int_truediv (width * pil_image.width img) (pil_image.height img) of
              Inl e \<Rightarrow> Inl e
            | Inr new_height \<Rightarrow> Inr (width, new_height)))"

definition crop_box :: "pil_image \<Rightarrow> pil_image \<Rightarrow> int \<times> int \<Rightarrow> int \<times> int \<times> int \<times> int" where
  "crop_box img generated sz =
     (let width = fst sz; height = snd sz
      in if pil_image.width img \<ge> pil_image.height img then
           (trunc_div (pil_image.width generated - width) 2, 0,
            trunc_div (pil_image.width generated + width) 2, height)
         else
           (0, trunc_div (pil_image.height generated - height) 2,
            width, trunc_div (pil_image.height generated + height) 2))"

definition crop :: "pil_image \<Rightarrow> int \<times> int \<Rightarrow> error + pil_image" where
  "crop img sz =
     (case crop_resize_size img sz of
        Inl e \<Rightarrow> Inl e
      | Inr scaled \<Rightarrow>
          (case pil_resize img scaled of
             Inl e \<Rightarrow> Inl e
           | Inr generated \<Rightarrow> Inr (pil_crop generated (crop_box img generated sz))))"

definition preserve :: "world \<Rightarrow> pil_image \<Rightarrow> int \<times> int \<Rightarrow> error + pil_image" where
  "preserve w img sz = Inr (pil_thumbnail w img sz)"

subsection \<open>Writing one rendition, and process\<close>

definition get_image_object_from_byte :: "world \<Rightarrow> media \<Rightarrow> error + pil_image" where
  "get_image_object_from_byte w self =
     (case get_source_bytes w self of
        Inl e \<Rightarrow> Inl e
      | Inr None \<Rightarrow> Inl AttributeError
      | Inr (Some stream) \<Rightarrow>
          (case pil_open w stream of
             None \<Rightarrow> Inl UnidentifiedImageError
           | Some img \<Rightarrow> Inr img))"

text \<open>\<open>os.path.split(p)[0]\<close>: what precedes the last slash, without trailing slashes
  unless it consists of slashes only.\<close>

definition dirname :: "string \<Rightarrow> string" where
  "dirname p =
     (let head = rev (dropWhile (\<lambda>c. c \<noteq> CHR ''/'') (rev p))
      in if head \<noteq> [] \<and> (\<exists>c \<in> set head. c \<noteq> CHR ''/'')
         then rev (dropWhile (\<lambda>c. c = CHR ''/'') (rev head))
         else head)"

definition exif_keys :: "(string \<times> string) list" where
  "exif_keys = [(''datetime'', ''Exif.Image.DateTimeOriginal'')]"

definition xmp_keys :: "(string \<times> string) list" where
  "xmp_keys =
     [(''title'', ''Xmp.xmp.Title''), (''description'', ''Xmp.xmp.Description''),
      (''creator'', ''Xmp.xmp.Creator''), (''contributor'', ''Xmp.xmp.Contributor''),
      (''publisher'', ''Xmp.xmp.Publisher''), (''rights'', ''Xmp.xmp.Rights'')]"

text \<open>\<open>set_file_metadata\<close>: the tagged bytes, or \<open>None\<close> when there is no stream, no
  metadata, or no entry of the metadata that Exif or XMP takes.\<close>

definition set_file_metadata :: "world \<Rightarrow> bytes option \<Rightarrow> (string \<times> jvalue) list \<Rightarrow> error + bytes option" where
  "set_file_metadata w stream metadata =
     (case stream of
        None \<Rightarrow> Inr None
      | Some content \<Rightarrow>
          if metadata = [] then Inr None
          else
            (let exif_meta = [(the (map_of exif_keys k), v). (k, v) \<leftarrow> metadata,
                                k \<in> set (map fst exif_keys)];
                 xmp_meta = [(the (map_of xmp_keys k), v). (k, v) \<leftarrow> metadata,
                               k \<in> set (map fst xmp_keys)]
             in if exif_meta \<noteq> [] \<or> xmp_meta \<noteq> [] then
                  (case pyexiv2_modify w content exif_meta xmp_meta of
                     None \<Rightarrow> Inl RuntimeError
                   | Some tagged \<Rightarrow> Inr (Some tagged))
                else Inr None))"

text \<open>Opening a path for writing and writing it in full; here no error is caught.\<close>

definition write_file :: "world \<Rightarrow> string \<Rightarrow> bytes \<Rightarrow> error + world" where
  "write_file w path content =
     (if path = [] \<or> \<not> can_open_wb w path \<or> \<not> can_write w path then Inl (OSError path)
      else Inr (w\<lparr>files := (files w)(path := Some content)\<rparr>))"

text \<open>
  \<open>generate\<close>, lines 326 to 370. An unknown transformation mode is logged and the
  rendition is skipped. \<open>pyexiv2.ImageData(stream_meta).get_bytes()\<close> gives back the tagged
  bytes, and \<open>generated.save(path, ...)\<close> writes the bytes that the save into the buffer
  produced.
\<close>

definition generate :: "world \<Rightarrow> media \<Rightarrow> string \<Rightarrow> (string \<times> jvalue) list \<Rightarrow> error + world" where
  "generate w self nm params =
     (case get_image_object_from_byte w self of
        Inl e \<Rightarrow> Inl e
      | Inr source \<Rightarrow>
          (let file_format = dict_get params ''file_format'';
               path = dict_get params ''path'';
               transformation_mode = dict_get params ''transformation_mode'';
               width = dict_get params ''width'';
               height = dict_get params ''height''
           in if transformation_mode \<notin> {JStr ''resize'', JStr ''preserve'', JStr ''crop''}
              then Inr w
              else
                (case path of
                   JStr path_s \<Rightarrow>
                     (let prefix = dirname path_s
                      in if \<not> path_exists w prefix \<and> \<not> can_makedirs w prefix
                         then Inl (OSError prefix)
                         else
                           (let w1 = w\<lparr>path_exists := (path_exists w)(prefix := True)\<rparr>
                            in case (width, height) of
                                 (JInt wd, JInt ht) \<Rightarrow>
                                   (case (if transformation_mode = JStr ''resize''
                                          then resize source (wd, ht)
                                          else if transformation_mode = JStr ''preserve''
                                          then preserve w1 source (wd, ht)
                                          else crop source (wd, ht)) of
                                      Inl e \<Rightarrow> Inl e
                                    | Inr generated \<Rightarrow>
                                        (case pil_save w1 generated file_format of
                                           None \<Rightarrow> Inl KeyError
                                         | Some imageBytes \<Rightarrow>
                                             (case (if meta self \<noteq> []
                                                    then set_file_metadata w1 (Some imageBytes) (meta self)
                                                    else Inr None) of
                                                Inl e \<Rightarrow> Inl e
                                              | Inr stream_meta \<Rightarrow>
                                                  if truthy stream_meta
                                                  then write_file w1 path_s (the stream_meta)
                                                  else write_file w1 path_s imageBytes)))
                               | _ \<Rightarrow> Inl TypeError))
                 | _ \<Rightarrow> Inl TypeError)))"

text \<open>The loop of \<open>process\<close> over \<open>self.properties.items()\<close>.\<close>

fun generate_all :: "world \<Rightarrow> media \<Rightarrow> (string \<times> jvalue) list \<Rightarrow> error + world" where
  "generate_all w self [] = Inr w"
| "generate_all w self ((k, v) # items) =
     (case v of
        JDict params \<Rightarrow>
          (case generate w self k params of
             Inl e \<Rightarrow> Inl e
           | Inr w1 \<Rightarrow> generate_all w1 self items)
      | _ \<Rightarrow> Inl AttributeError)"

text \<open>
  \<open>process\<close> of an image, lines 306 to 324. The result is the record and the world after
  the call; at the two early exits, where Python returns \<open>None\<close>, both are unchanged.
  When \<open>format_transformation_properties\<close> returns \<open>None\<close>, the call of \<open>items\<close> raises.
\<close>

definition image_process :: "image_class \<Rightarrow> world \<Rightarrow> media \<Rightarrow> error + media \<times> world" where
  "image_process cls w self =
     (if DESTINATION_PATH_PATTERN cls = [] then Inr (self, w)
      else if PROCESS_PARAMS cls = [] then Inr (self, w)
      else
        (case format_transformation_properties cls w self of
           Inl e \<Rightarrow> Inl e
         | Inr props \<Rightarrow>
             (let self1 = self\<lparr>properties := props\<rparr>
              in case props of
                   JDict items \<Rightarrow>
                     (case generate_all w self1 items of
                        Inl e \<Rightarrow> Inl e
                      | Inr w1 \<Rightarrow> Inr (self1, w1))
                 | _ \<Rightarrow> Inl AttributeError)))"

section \<open>Metadata of audio and video records written back to the source file\<close>

text \<open>\<open>d[k] = v\<close> on a dict, and \<open>setattr(f, field, v)\<close> on an open media file.\<close>

definition dict_set :: "(string \<times> jvalue) list \<Rightarrow> string \<Rightarrow> jvalue \<Rightarrow> (string \<times> jvalue) list" where
  "dict_set d k v =
     (if k \<in> set (map fst d) then map (\<lambda>(k', v'). if k' = k then (k', v) else (k', v')) d
      else d @ [(k, v)])"

definition setattr :: "mediafile \<Rightarrow> string \<Rightarrow> jvalue \<Rightarrow> mediafile" where
  "setattr f field v = f\<lparr>mf_fields := dict_set (mf_fields f) field v\<rparr>"

text \<open>\<open>Tag.query().filter_by(name=tag_name).first()\<close>: the first row of that name, whatever
  its media type. Rows come in the order of their insertion.\<close>

definition first_tag_by_name :: "world \<Rightarrow> string \<Rightarrow> tag option" where
  "first_tag_by_name w tag_name = find (\<lambda>t. name t = tag_name) (tag_table w)"

definition insert_tag :: "world \<Rightarrow> string \<Rightarrow> string \<Rightarrow> tag \<times> world" where
  "insert_tag w nm mt =
     (let t = \<lparr>tag_uuid = next_uuid w, name = nm, tag_media_type = mt\<rparr>
      in (t, w\<lparr>tag_table := tag_table w @ [t], next_uuid := Suc (next_uuid w)\<rparr>))"

text \<open>The lookup and the insertion that follows it when nothing is found, as both
  \<open>Audio.write_metadata_to_source\<close> and \<open>Audio.before_update_orm_event\<close> write them.\<close>

definition audio_existing_tag :: "world \<Rightarrow> string \<Rightarrow> tag \<times> world" where
  "audio_existing_tag w tag_name =
     (case first_tag_by_name w tag_name of
        Some existing_tag \<Rightarrow> (existing_tag, w)
      | None \<Rightarrow> insert_tag w (lower (strip tag_name)) ''audio'')"

text \<open>\<open>self.tags.clear()\<close> and \<open>MediaTag.insert\<close>; the two columns of \<open>MediaTag\<close> are its
  primary key.\<close>

definition tags_clear :: "world \<Rightarrow> media \<Rightarrow> world" where
  "tags_clear w self =
     w\<lparr>media_tag_table := filter (\<lambda>(m, t). m \<noteq> uuid self) (media_tag_table w)\<rparr>"

definition insert_media_tag :: "world \<Rightarrow> nat \<Rightarrow> nat \<Rightarrow> error + world" where
  "insert_media_tag w m t =
     (if (m, t) \<in> set (media_tag_table w) then Inl IntegrityError
      else Inr (w\<lparr>media_tag_table := media_tag_table w @ [(m, t)]\<rparr>))"

text \<open>The inner loop of \<open>Audio.write_metadata_to_source\<close> (lines 103 to 113): the names of
  the tags found or created, in the order of the tokens.\<close>

fun audio_genres_tags :: "world \<Rightarrow> jvalue list \<Rightarrow> error + jvalue list \<times> world" where
  "audio_genres_tags w [] = Inr ([], w)"
| "audio_genres_tags w (JStr tag_name # v) =
     (case audio_existing_tag w tag_name of
        (existing_tag, w1) \<Rightarrow>
          (case audio_genres_tags w1 v of
             Inl e \<Rightarrow> Inl e
           | Inr (genres_tags, w2) \<Rightarrow> Inr (JStr (name existing_tag) # genres_tags, w2)))"
| "audio_genres_tags w (_ # v) = Inl AttributeError"

text \<open>The loop over \<open>self.meta.items()\<close> (lines 98 to 116).\<close>

fun audio_write_fields :: "media \<Rightarrow> (string \<times> jvalue) list \<Rightarrow> world \<Rightarrow> mediafile \<Rightarrow> error + world \<times> mediafile" where
  "audio_write_fields self [] w f = Inr (w, f)"
| "audio_write_fields self ((field, v) # items) w f =
     (case v of
        JList tokens \<Rightarrow>
          if field = ''genres'' \<and> tokens \<noteq> [] then
            (case audio_genres_tags (tags_clear w self) tokens of
               Inl e \<Rightarrow> Inl e
             | Inr (genres_tags, w1) \<Rightarrow>
                 audio_write_fields self items w1 (setattr f field (JList genres_tags)))
          else audio_write_fields self items w (setattr f field v)
      | _ \<Rightarrow> audio_write_fields self items w (setattr f field v))"

text \<open>\<open>MediaFile(self.file_path)\<close> raises when there is no such media file; \<open>f.save()\<close>
  stores the fields set on \<open>f\<close>.\<close>

definition audio_write_metadata_to_source :: "world \<Rightarrow> media \<Rightarrow> error + media \<times> world" where
  "audio_write_metadata_to_source w self =
     (case file_path self of
        None \<Rightarrow> Inl TypeError
      | Some path \<Rightarrow>
          (case media_files w path of
             None \<Rightarrow> Inl (OSError path)
           | Some f \<Rightarrow>
               (case properties self of
                  JDict d \<Rightarrow>
                    (let self1 = self\<lparr>properties := JDict (dict_set d ''duration'' (JInt (mf_length f)))\<rparr>
                     in case audio_write_fields self1 (meta self1) w f of
                          Inl e \<Rightarrow> Inl e
                        | Inr (w1, f1) \<Rightarrow>
                            Inr (self1, w1\<lparr>media_files := (media_files w1)(path := Some f1)\<rparr>))
                | _ \<Rightarrow> Inl TypeError)))"

text \<open>What \<open>for tag_name in target.meta["genres"]\<close> iterates over.\<close>

definition iterate :: "jvalue \<Rightarrow> error + jvalue list" where
  "iterate v =
     (case v of
        JList xs \<Rightarrow> Inr xs
      | JStr cs \<Rightarrow> Inr (map (\<lambda>c. JStr [c]) cs)
      | JDict d \<Rightarrow> Inr (map (\<lambda>(k, x). JStr k) d)
      | _ \<Rightarrow> Inl TypeError)"

text \<open>The loop of \<open>Audio.before_update_orm_event\<close> (lines 149 to 161).\<close>

fun audio_link_tags :: "media \<Rightarrow> world \<Rightarrow> jvalue list \<Rightarrow> error + world" where
  "audio_link_tags target w [] = Inr w"
| "audio_link_tags target w (JStr tag_name # v) =
     (case audio_existing_tag w tag_name of
        (existing_tag, w1) \<Rightarrow>
          (case insert_media_tag w1 (uuid target) (tag_uuid existing_tag) of
             Inl e \<Rightarrow> Inl e
           | Inr w2 \<Rightarrow> audio_link_tags target w2 v))"
| "audio_link_tags target w (_ # v) = Inl AttributeError"

definition audio_before_update_orm_event :: "world \<Rightarrow> media \<Rightarrow> error + media \<times> world" where
  "audio_before_update_orm_event w target =
     (let target1 = target\<lparr>edit_date := Some (now w)\<rparr>
      in if meta target1 = [] then Inr (target1, w)
         else
           (case audio_write_metadata_to_source w target1 of
              Inl e \<Rightarrow> Inl e
            | Inr (target2, w1) \<Rightarrow>
                if ''genres'' \<in> set (map fst (meta target2)) then
                  (case iterate (dict_get (meta target2) ''genres'') of
                     Inl e \<Rightarrow> Inl e
                   | Inr tokens \<Rightarrow>
                       (case audio_link_tags target2 w1 tokens of
                          Inl e \<Rightarrow> Inl e
                        | Inr w2 \<Rightarrow> Inr (target2, w2)))
                else Inr (target2, w1)))"

text \<open>
  \<open>Video.write_metadata_to_source\<close>: the names of the tags of media type \<open>video\<close> are read
  once, a token that is not among them is cleaned and, unless empty, inserted as a tag;
  no tag is linked to the record.
\<close>

fun video_genres_tags :: "string list \<Rightarrow> world \<Rightarrow> jvalue list \<Rightarrow> error + jvalue list \<times> world" where
  "video_genres_tags tag_list w [] = Inr ([], w)"
| "video_genres_tags tag_list w (JStr tg # v) =
     (let tg1 = (if tg \<notin> set tag_list then lower (strip tg) else tg);
          w1 = (if tg \<notin> set tag_list \<and> tg1 \<noteq> [] then snd (insert_tag w tg1 ''video'') else w)
      in case video_genres_tags tag_list w1 v of
           Inl e \<Rightarrow> Inl e
         | Inr (genres_tags, w2) \<Rightarrow> Inr (JStr tg1 # genres_tags, w2))"
| "video_genres_tags tag_list w (_ # v) = Inl AttributeError"

fun video_write_fields :: "string list \<Rightarrow> (string \<times> jvalue) list \<Rightarrow> world \<Rightarrow> mediafile \<Rightarrow> error + world \<times> mediafile" where
  "video_write_fields tag_list [] w f = Inr (w, f)"
| "video_write_fields tag_list ((field, v) # items) w f =
     (case v of
        JList tokens \<Rightarrow>
          if field = ''genres'' then
            (case video_genres_tags tag_list w tokens of
               Inl e \<Rightarrow> Inl e
             | Inr (genres_tags, w1) \<Rightarrow>
                 video_write_fields tag_list items w1 (setattr f field (JList genres_tags)))
          else video_write_fields tag_list items w (setattr f field v)
      | _ \<Rightarrow> video_write_fields tag_list items w (setattr f field v))"

definition video_write_metadata_to_source :: "world \<Rightarrow> media \<Rightarrow> error + media \<times> world" where
  "video_write_metadata_to_source w self =
     (case file_path self of
        None \<Rightarrow> Inl TypeError
      | Some path \<Rightarrow>
          (case media_files w path of
             None \<Rightarrow> Inl (OSError path)
           | Some f \<Rightarrow>
               (let tag_list = map name (filter (\<lambda>t. tag_media_type t = ''video'') (tag_table w))
                in case video_write_fields tag_list (meta self) w f of
                     Inl e \<Rightarrow> Inl e
                   | Inr (w1, f1) \<Rightarrow>
                       Inr (self, w1\<lparr>media_files := (media_files w1)(path := Some f1)\<rparr>))))"

definition video_before_update_orm_event :: "world \<Rightarrow> media \<Rightarrow> error + media \<times> world" where
  "video_before_update_orm_event w target =
     (let target1 = target\<lparr>edit_date := Some (now w)\<rparr>
      in if meta target1 = [] then Inr (target1, w)
         else video_write_metadata_to_source w target1)"

section \<open>Sample configurations and requests\<close>

text \<open>
  A small \<open>str.format\<close> for the samples: it fills the replacement fields \<open>{key}\<close> whose
  argument is a string, and gives \<open>None\<close> for a key that is missing or not a string.
\<close>

function simple_format :: "string \<Rightarrow> (string \<times> jvalue) list \<Rightarrow> string option" where
  "simple_format [] args = Some []"
| "simple_format (c # cs) args =
     (if c = CHR ''{'' then
        (case map_of args (takeWhile (\<lambda>d. d \<noteq> CHR ''}'') cs) of
           Some (JStr v) \<Rightarrow>
             map_option ((@) v) (simple_format (drop 1 (dropWhile (\<lambda>d. d \<noteq> CHR ''}'') cs)) args)
         | _ \<Rightarrow> None)
      else map_option ((#) c) (simple_format cs args))"
  by pat_completeness auto
termination
  by (relation "measure (\<lambda>(p, args). length p)")
     (auto simp: less_Suc_eq_le intro: le_trans [OF diff_le_self length_dropWhile_le])

text \<open>The samples use lower-case alphanumeric names, which \<open>slugify\<close> leaves as they are.\<close>

definition sample_world :: world where
  "sample_world =
     \<lparr>requests_get = (\<lambda>u. if u = ''http://x/sample.jpg'' then Some ''remote bytes'' else None),
      urlopen = (\<lambda>u. if u = ''http://x/sample.jpg'' then Some ''remote bytes'' else None),
      files = (\<lambda>p. if p = ''/srv/in/photo.jpg'' then Some ''local bytes'' else None),
      can_open_wb = (\<lambda>p. True),
      can_write = (\<lambda>p. True),
      write_through = 8192,
      now = (2021, 3, 14),
      source_path_prefix = Some ''/tmp/m'',
      media_path_prefix = Some ''/tmp/media'',
      slugify = (\<lambda>s. s),
      str_format = simple_format,
      media_table = [],
      tag_table = [],
      media_tag_table = [],
      media_files = (\<lambda>p. None),
      next_uuid = 0,
      path_exists = (\<lambda>p. False),
      can_makedirs = (\<lambda>p. True),
      pil_open = (\<lambda>b. if b = [] then None else Some \<lparr>width = 100, height = 200\<rparr>),
      pil_save = (\<lambda>img fmt. if fmt = JStr ''JPEG'' then Some ''jpeg bytes'' else None),
      pil_thumbnail = (\<lambda>img sz. img),
      pyexiv2_modify = (\<lambda>b exif xmp. Some (b @ '' with metadata''))\<rparr>"

definition image_on_disk :: media_class where
  "image_on_disk =
     \<lparr>MEDIA_TYPE = Some ''image'', SOURCE_STORAGE_STRATEGY = Some ''disk'',
      SOURCE_DISK_STORAGE_PATTERN = Some (Some ''{source_path_prefix}/img/{filename}.{extension}'')\<rparr>"

definition image_in_database :: media_class where
  "image_in_database =
     \<lparr>MEDIA_TYPE = Some ''image'', SOURCE_STORAGE_STRATEGY = Some ''database'',
      SOURCE_DISK_STORAGE_PATTERN = None\<rparr>"

definition no_source :: media_data where
  "no_source = \<lparr>file = None, file_path = None, file_url = None, filename = None\<rparr>"

definition inline_request :: media_data where
  "inline_request = no_source\<lparr>file := Some ''inline bytes'', filename := Some ''sample.jpg''\<rparr>"

text \<open>A request whose inline bytes, one mebibyte of them, exceed the buffer of the file object.\<close>

definition large_inline_request :: media_data where
  "large_inline_request =
     no_source\<lparr>file := Some (replicate 1048576 (CHR ''x'')), filename := Some ''sample.jpg''\<rparr>"

text \<open>The base class \<open>Model.Media\<close>, which sets none of the class constants.\<close>

definition base_media :: media_class where
  "base_media =
     \<lparr>MEDIA_TYPE = None, SOURCE_STORAGE_STRATEGY = None, SOURCE_DISK_STORAGE_PATTERN = None\<rparr>"

definition url_request :: media_data where
  "url_request = no_source\<lparr>file_url := Some ''http://x/sample.jpg''\<rparr>"

definition two_sources_request :: media_data where
  "two_sources_request = url_request\<lparr>file := Some ''inline bytes''\<rparr>"

definition path_request :: media_data where
  "path_request = no_source\<lparr>file_path := Some ''/srv/in/photo.jpg''\<rparr>"

text \<open>A record as \<open>create\<close> leaves it for \<open>url_request\<close> under the \<open>disk\<close> strategy, in a world
  where the copy on disk is the one fetched then and the url serves other bytes by now.\<close>

definition url_image :: media where
  "url_image =
     \<lparr>file = None, file_path = Some ''/tmp/m/img/sample.jpg'',
      file_url = Some ''http://x/sample.jpg'', filename = Some ''sample.jpg'', uuid = 0,
      media_type = ''image'', state = ''draft'', meta = [], properties = JDict [],
      edit_date = None\<rparr>"

definition later_world :: world where
  "later_world =
     sample_world\<lparr>files := (files sample_world)(''/tmp/m/img/sample.jpg'' := Some ''remote bytes''),
                  urlopen := (\<lambda>u. Some ''newer remote bytes''),
                  media_table := [url_image], next_uuid := 1\<rparr>"

definition draft_audio :: media where
  "draft_audio =
     \<lparr>file = None, file_path = Some ''/srv/audio/song.ogg'', file_url = None,
      filename = Some ''song.ogg'', uuid = 7, media_type = ''audio'', state = ''draft'',
      meta = [], properties = JDict [], edit_date = None\<rparr>"

text \<open>The record that \<open>create\<close> returns for \<open>inline_request\<close> under the \<open>disk\<close> strategy.\<close>

definition inline_image :: media where
  "inline_image =
     \<lparr>file = None, file_path = Some ''/tmp/m/img/sample.jpg'', file_url = None,
      filename = Some ''sample.jpg'', uuid = 0, media_type = ''image'', state = ''draft'',
      meta = [], properties = JDict [], edit_date = None\<rparr>"

text \<open>An image class with one rendition, a thumbnail cropped to 50 by 50 pixels.\<close>

definition image_with_thumb :: image_class where
  "image_with_thumb =
     \<lparr>MEDIA_TYPE = Some ''image'', SOURCE_STORAGE_STRATEGY = Some ''disk'',
      SOURCE_DISK_STORAGE_PATTERN = Some (Some ''{source_path_prefix}/img/{filename}.{extension}''),
      PROCESS_PARAMS =
        [(''thumb'', [(''width'', JInt 50), (''height'', JInt 50), (''extension'', JStr ''jpg''),
                      (''file_format'', JStr ''JPEG''), (''transformation_mode'', JStr ''crop'')])],
      DESTINATION_PATH_PATTERN = ''{media_path_prefix}/{name}/{filename}'',
      URL_PATTERN = ''/media/{name}/{filename}''\<rparr>"

definition thumb_plan :: jvalue where
  "thumb_plan =
     JDict [(''thumb'',
             JDict [(''width'', JInt 50), (''height'', JInt 50),
                    (''path'', JStr ''/tmp/media/thumb/sample.jpg''),
                    (''url'', JStr ''/media/thumb/sample.jpg''),
                    (''file_format'', JStr ''JPEG''), (''transformation_mode'', JStr ''crop''),
                    (''extension'', JStr ''jpg'')])]"

text \<open>An audio record with a song on disk, in a registry that holds one tag, of media type
  \<open>image\<close>, named \<open>rock\<close>.\<close>

definition song :: mediafile where
  "song = \<lparr>mf_length = 215, mf_fields = [(''title'', JStr ''Song'')]\<rparr>"

definition audio_world :: world where
  "audio_world =
     sample_world\<lparr>media_files := (\<lambda>p. if p = ''/srv/audio/song.ogg'' then Some song else None),
                  media_table := [draft_audio], next_uuid := 8\<rparr>"

definition image_rock_tag :: tag where
  "image_rock_tag = \<lparr>tag_uuid = 3, name = ''rock'', tag_media_type = ''image''\<rparr>"

definition rock_world :: world where
  "rock_world = audio_world\<lparr>tag_table := [image_rock_tag]\<rparr>"

definition rock_audio :: media where
  "rock_audio = draft_audio\<lparr>meta := [(''genres'', JList [JStr ''rock''])]\<rparr>"

definition capital_rock_audio :: media where
  "capital_rock_audio = draft_audio\<lparr>meta := [(''genres'', JList [JStr ''Rock''])]\<rparr>"

section \<open>Properties of create\<close>

lemmas create_defs =
  create_def truthy_def read_source_def store_source_def get_source_storage_strategy_def
  SOURCE_STORAGE_STRATEGIES_def compute_source_path_def slugify_filename_def lower_def
  lower_char_def basename_def write_source_def insert_media_def Let_def

lemmas sample_defs =
  sample_world_def image_on_disk_def image_in_database_def no_source_def inline_request_def
  url_request_def path_request_def two_sources_request_def large_inline_request_def
  base_media_def
  url_image_def later_world_def draft_audio_def inline_image_def
  image_with_thumb_def thumb_plan_def song_def audio_world_def image_rock_tag_def
  rock_world_def rock_audio_def capital_rock_audio_def

text \<open>
  C9, as the code has it. A request in which none, or more than one, of \<open>file\<close>,
  \<open>file_url\<close> and \<open>file_path\<close> carries a non-empty value is refused: \<open>create\<close> raises, and
  it leaves the tables and the file system as they were, whatever the combination of the
  three fields. On a class that sets \<open>MEDIA_TYPE\<close> the exception is the one about the
  source fields: "No 'file', 'file_url' nor 'filepath' field set" for none and "Too much
  source file fields set" for several. On a class that sets no \<open>MEDIA_TYPE\<close>, as the base
  class, the exception is the one about \<open>MEDIA_TYPE\<close>, which is tested first.
\<close>

theorem create_rejects_zero_or_many_sources:
  assumes "length (filter truthy [file kwargs, file_url kwargs, file_path kwargs]) \<noteq> 1"
  shows "snd (create cls w kwargs) = w \<and>
         (\<exists>e. fst (create cls w kwargs) = Inl e) \<and>
         (truthy (MEDIA_TYPE cls) \<longrightarrow>
            fst (create cls w kwargs) =
              Inl (if length (filter truthy [file kwargs, file_url kwargs, file_path kwargs]) = 0
                   then NoSourceFieldSet else TooMuchSourceFields)) \<and>
         (\<not> truthy (MEDIA_TYPE cls) \<longrightarrow> fst (create cls w kwargs) = Inl MediaTypeNotSet)"
  using assms by (auto simp: create_def Let_def)

theorem create_rejects_zero_or_many_sources_witness:
  "length (filter truthy [file two_sources_request, file_url two_sources_request,
                          file_path two_sources_request]) \<noteq> 1 \<and>
   truthy (MEDIA_TYPE image_on_disk) \<and>
   create image_on_disk sample_world two_sources_request =
     (Inl TooMuchSourceFields, sample_world) \<and>
   length (filter truthy [file no_source, file_url no_source, file_path no_source]) \<noteq> 1 \<and>
   create image_on_disk sample_world no_source = (Inl NoSourceFieldSet, sample_world) \<and>
   \<not> truthy (MEDIA_TYPE base_media) \<and>
   create base_media sample_world two_sources_request = (Inl MediaTypeNotSet, sample_world)"
  using create_rejects_zero_or_many_sources [of two_sources_request image_on_disk sample_world]
        create_rejects_zero_or_many_sources [of no_source image_on_disk sample_world]
        create_rejects_zero_or_many_sources [of two_sources_request base_media sample_world]
  by (simp add: truthy_def sample_defs prod_eq_iff)

text \<open>
  The claim as stated fails on the base class: with no source field, and with two, the
  exception is the one about \<open>MEDIA_TYPE\<close>, not the one about the source fields.
\<close>

theorem create_base_class_error_counterexample:
  "length (filter truthy [file no_source, file_url no_source, file_path no_source]) = 0 \<and>
   fst (create base_media sample_world no_source) = Inl MediaTypeNotSet \<and>
   fst (create base_media sample_world no_source) \<noteq> Inl NoSourceFieldSet \<and>
   length (filter truthy [file two_sources_request, file_url two_sources_request,
                          file_path two_sources_request]) = 2 \<and>
   fst (create base_media sample_world two_sources_request) = Inl MediaTypeNotSet \<and>
   fst (create base_media sample_world two_sources_request) \<noteq> Inl TooMuchSourceFields"
  by (simp add: create_def truthy_def Let_def sample_defs)

subsection \<open>How the steps of create fit together\<close>

lemma read_source_keeps:
  "read_source w data = Inr data1 \<Longrightarrow>
     file_url data1 = file_url data \<and> file_path data1 = file_path data"
  by (auto simp: read_source_def split: if_splits option.splits)

lemma compute_source_path_keeps:
  "compute_source_path cls w data = Inr (data1, p) \<Longrightarrow>
     file_url data1 = file_url data \<and> file_path data1 = file_path data \<and> file data1 = file data"
  by (auto simp: compute_source_path_def Let_def split: if_splits option.splits list.splits)

lemma read_source_can_write [simp]:
  "read_source (w\<lparr>can_write := f\<rparr>) data = read_source w data"
  by (simp add: read_source_def)

lemma compute_source_path_can_write [simp]:
  "compute_source_path cls (w\<lparr>can_write := f\<rparr>) data = compute_source_path cls w data"
  by (simp add: compute_source_path_def slugify_filename_def Let_def
           cong: option.case_cong list.case_cong if_cong)





lemma create_Inr:
  "fst (create cls w kwargs) = Inr rec \<Longrightarrow>
     \<exists>data1 data2 w1. read_source w kwargs = Inr data1 \<and>
        store_source cls w data1 = (Inr data2, w1) \<and>
        length (filter truthy [file kwargs, file_url kwargs, file_path kwargs]) = 1 \<and>
        file rec = file data2 \<and> file_path rec = file_path data2 \<and> file_url rec = file_url data2"
  by (auto simp: create_def Let_def insert_media_def split: if_splits sum.splits prod.splits)

subsection \<open>Which source fields a created record holds\<close>

text \<open>
  C1, as the code has it. Take a successful \<open>create\<close> on a class with a configured storage
  strategy, whose source bytes (given inline, fetched from the url or read from the path)
  are not empty, in a world where writing the file does not fail. The \<open>file_url\<close> of the
  request is kept on the record. Under \<open>database\<close> the record holds the source bytes in
  \<open>file\<close> and keeps the \<open>file_path\<close> of the request, so exactly one field is populated
  only when the bytes were given inline. Under \<open>disk\<close> the record has an empty \<open>file\<close>
  and a populated \<open>file_path\<close>, so exactly one field is populated only when the request
  gave no url.
\<close>

theorem create_source_fields:
  assumes ok: "fst (create cls w kwargs) = Inr rec"
      and src: "read_source w kwargs = Inr data1" "truthy (file data1)"
      and wr: "\<forall>p. can_write w p"
  shows "file_url rec = file_url kwargs \<and>
         (get_source_storage_strategy cls = Some ''database'' \<longrightarrow>
            file rec = file data1 \<and> file_path rec = file_path kwargs \<and>
            (length (filter truthy [file rec, file_path rec, file_url rec]) = 1) = truthy (file kwargs)) \<and>
         (get_source_storage_strategy cls = Some ''disk'' \<longrightarrow>
            file rec = None \<and> truthy (file_path rec) \<and>
            (length (filter truthy [file rec, file_path rec, file_url rec]) = 1) =
              (\<not> truthy (file_url kwargs)))"
proof -
  from create_Inr [OF ok] src(1) obtain data2 w1 where
    st: "store_source cls w data1 = (Inr data2, w1)" and
    one: "length (filter truthy [file kwargs, file_url kwargs, file_path kwargs]) = 1" and
    r: "file rec = file data2" "file_path rec = file_path data2" "file_url rec = file_url data2"
    by auto
  note k = read_source_keeps [OF src(1)]
  have inl: "truthy (file kwargs) \<Longrightarrow> file data1 = file kwargs"
    using src(1) one by (auto simp: read_source_def split: if_splits option.splits)
  have u: "file_url data2 = file_url data1"
    using st by (auto simp: store_source_def write_source_def split: if_splits sum.splits prod.splits dest: compute_source_path_keeps)
  have db: "get_source_storage_strategy cls = Some ''database'' \<Longrightarrow> data2 = data1"
    using st src(2) by (auto simp: store_source_def)
  have dk: "get_source_storage_strategy cls = Some ''disk'' \<Longrightarrow> file data2 = None \<and> truthy (file_path data2)"
    using st src(2) wr
    by (auto simp: store_source_def write_source_def truthy_def split: if_splits sum.splits prod.splits dest: compute_source_path_keeps)
  show ?thesis
    using r k u db dk one src(2) inl
    by (auto simp: truthy_def split: if_splits option.splits)
qed


theorem create_source_fields_witness:
  "fst (create image_on_disk sample_world url_request) = Inr url_image \<and>
   read_source sample_world url_request =
     Inr (url_request\<lparr>file := Some ''remote bytes'', filename := Some ''sample.jpg''\<rparr>) \<and>
   truthy (file (url_request\<lparr>file := Some ''remote bytes'', filename := Some ''sample.jpg''\<rparr>)) \<and>
   (\<forall>p. can_write sample_world p) \<and>
   get_source_storage_strategy image_on_disk = Some ''disk'' \<and>
   file url_image = None \<and> truthy (file_path url_image) \<and> truthy (file_url url_image) \<and>
   length (filter truthy [file url_image, file_path url_image, file_url url_image]) \<noteq> 1"
proof -
  have ok: "fst (create image_on_disk sample_world url_request) = Inr url_image"
    by (simp add: create_defs sample_defs)
  have rd: "read_source sample_world url_request =
     Inr (url_request\<lparr>file := Some ''remote bytes'', filename := Some ''sample.jpg''\<rparr>)"
    by (simp add: create_defs sample_defs)
  have tr: "truthy (file (url_request\<lparr>file := Some ''remote bytes'', filename := Some ''sample.jpg''\<rparr>))"
    by (simp add: truthy_def)
  have wr: "\<forall>p. can_write sample_world p"
    by (simp add: sample_defs)
  have disk: "get_source_storage_strategy image_on_disk = Some ''disk''"
    by (simp add: create_defs sample_defs)
  have u: "truthy (file_url url_request)" "file_url url_image = file_url url_request"
    by (simp_all add: truthy_def sample_defs)
  from create_source_fields [OF ok rd tr wr] disk u ok rd tr wr
  show ?thesis by simp
qed

text \<open>
  The claim as stated fails for a url source: under \<open>database\<close> the record holds both
  \<open>file\<close> and \<open>file_url\<close>, under \<open>disk\<close> both \<open>file_path\<close> and \<open>file_url\<close>.
\<close>

theorem create_two_fields_populated_counterexample:
  "(case fst (create image_in_database sample_world url_request) of
      Inl e \<Rightarrow> False
    | Inr rec \<Rightarrow> truthy (file rec) \<and> truthy (file_url rec) \<and> \<not> truthy (file_path rec)) \<and>
   (case fst (create image_on_disk sample_world url_request) of
      Inl e \<Rightarrow> False
    | Inr rec \<Rightarrow> \<not> truthy (file rec) \<and> truthy (file_url rec) \<and> truthy (file_path rec))"
  by (simp add: create_defs sample_defs)

subsection \<open>A write that fails\<close>





section \<open>Properties of get_source_bytes\<close>

text \<open>
  C8, as the code has it. \<open>get_source_bytes\<close> reads the first populated field in the order
  \<open>file\<close>, then \<open>file_url\<close>, then \<open>file_path\<close> (the order of
  \<open>get_source_file_field\<close>): the bytes of \<open>file\<close>, or what the url gives, or the content
  of the file at the path, a failed fetch or read being raised. When no field is populated
  the result is \<open>None\<close> and nothing is raised.
\<close>

theorem get_source_bytes_precedence:
  "(truthy (file self) \<longrightarrow> get_source_bytes w self = Inr (file self)) \<and>
   (\<not> truthy (file self) \<and> truthy (file_url self) \<longrightarrow>
      get_source_bytes w self =
        (case urlopen w (the (file_url self)) of
           None \<Rightarrow> Inl (RequestFailed (the (file_url self)))
         | Some bits \<Rightarrow> Inr (Some bits))) \<and>
   (\<not> truthy (file self) \<and> \<not> truthy (file_url self) \<and> truthy (file_path self) \<longrightarrow>
      get_source_bytes w self =
        (case files w (the (file_path self)) of
           None \<Rightarrow> Inl (OSError (the (file_path self)))
         | Some bits \<Rightarrow> Inr (Some bits))) \<and>
   (\<not> truthy (file self) \<and> \<not> truthy (file_url self) \<and> \<not> truthy (file_path self) \<longrightarrow>
      get_source_bytes w self = Inr None)"
  by (simp add: get_source_bytes_def get_source_file_field_def)

theorem get_source_bytes_precedence_witness:
  "truthy (file (url_image\<lparr>file := Some ''inline bytes''\<rparr>)) \<and>
   get_source_bytes later_world (url_image\<lparr>file := Some ''inline bytes''\<rparr>) =
     Inr (Some ''inline bytes'') \<and>
   \<not> truthy (file (url_image\<lparr>file_url := None\<rparr>)) \<and>
   \<not> truthy (file_url (url_image\<lparr>file_url := None\<rparr>)) \<and>
   truthy (file_path (url_image\<lparr>file_url := None\<rparr>)) \<and>
   get_source_bytes later_world (url_image\<lparr>file_url := None\<rparr>) = Inr (Some ''remote bytes'') \<and>
   get_source_bytes later_world (url_image\<lparr>file_url := None, file_path := None\<rparr>) = Inr None"
  using get_source_bytes_precedence [of "url_image\<lparr>file := Some ''inline bytes''\<rparr>" later_world]
        get_source_bytes_precedence [of "url_image\<lparr>file_url := None\<rparr>" later_world]
        get_source_bytes_precedence [of "url_image\<lparr>file_url := None, file_path := None\<rparr>" later_world]
  by (simp add: truthy_def sample_defs)

text \<open>
  The order stated in the claim (\<open>file\<close>, \<open>file_path\<close>, \<open>file_url\<close>) fails on a record
  that has both a path and a url: the bytes come from the url, not from the file on disk.
\<close>

theorem get_source_bytes_path_before_url_counterexample:
  "\<not> truthy (file url_image) \<and> truthy (file_path url_image) \<and> truthy (file_url url_image) \<and>
   files later_world (the (file_path url_image)) = Some ''remote bytes'' \<and>
   urlopen later_world (the (file_url url_image)) = Some ''newer remote bytes'' \<and>
   get_source_file_field url_image = Some ''file_url'' \<and>
   get_source_bytes later_world url_image = Inr (Some ''newer remote bytes'') \<and>
   get_source_bytes later_world url_image \<noteq> Inr (files later_world (the (file_path url_image)))"
  by (simp add: get_source_bytes_def get_source_file_field_def truthy_def sample_defs)

section \<open>Properties of the image transformations\<close>

lemmas image_defs =
  image_process_def format_transformation_properties_def format_item_def generate_def
  get_image_object_from_byte_def get_source_bytes_def get_source_file_field_def dict_get_def
  opt_json_def self_json_def dirname_def set_file_metadata_def write_file_def crop_def
  crop_resize_size_def crop_box_def pil_resize_def pil_crop_def int_truediv_def trunc_div_def
  resize_def preserve_def truthy_def Let_def

text \<open>
  Where \<open>__crop\<close> is right: on a source at least as wide as high, when the width scaled by
  the target height covers the target width, the result is exactly the target box.
\<close>

lemma trunc_div_nonneg: "0 \<le> a \<Longrightarrow> 0 < b \<Longrightarrow> trunc_div a b = a div b"
  by (cases "a = 0") (simp_all add: trunc_div_def)

lemma crop_landscape_covering:
  assumes "0 < height img" "height img \<le> width img" "1 \<le> W" "1 \<le> H"
    and "W \<le> (H * width img) div height img"
  shows "crop img (W, H) = Inr \<lparr>width = W, height = H\<rparr>"
proof -
  let ?g = "(H * width img) div height img"
  have nn: "0 \<le> H * width img" using assms by simp
  have sz: "crop_resize_size img (W, H) = Inr (?g, H)"
    using assms nn by (simp add: crop_resize_size_def int_truediv_def trunc_div_nonneg)
  have g1: "1 \<le> ?g" using assms by linarith
  have "\<exists>generated. pil_resize img (?g, H) = Inr generated \<and>
          width generated = ?g \<and> height generated = H"
  proof (cases "(width img, height img) = (?g, H)")
    case True
    then have "pil_resize img (?g, H) = Inr img"
      unfolding pil_resize_def by (rule if_P)
    moreover from True have "width img = ?g \<and> height img = H"
      by (rule Pair_inject) (rule conjI)
    ultimately show ?thesis by blast
  next
    case False
    then show ?thesis using g1 assms(4) by (auto simp: pil_resize_def)
  qed
  then obtain generated where r: "pil_resize img (?g, H) = Inr generated"
    and gw: "width generated = ?g" and gh: "height generated = H"
    by blast
  have "trunc_div (?g + W) 2 - trunc_div (?g - W) 2 = W"
    using assms g1 by (simp add: trunc_div_nonneg) 
  then show ?thesis
    using sz r gw gh assms by (simp add: crop_def crop_box_def pil_crop_def)
qed

text \<open>
  C3. On a source that is higher than wide the claim has the image scaled to the target
  width with the height \<open>W * original_height / original_width\<close>, which keeps the aspect
  ratio. The code computes \<open>W * original_width / original_height\<close> there, the ratio of
  the other branch: a source of 100 by 200 pixels with the target 50 by 50 is resized to
  50 by 25, not to 50 by 100, so the image is squeezed and does not cover the target.
\<close>

theorem crop_portrait_scales_by_inverted_ratio:
  "crop_resize_size \<lparr>width = 100, height = 200\<rparr> (50, 50) = Inr (50, 25) \<and>
   int_truediv (50 * 200) 100 = Inr 100 \<and>
   pil_resize \<lparr>width = 100, height = 200\<rparr> (50, 25) = Inr \<lparr>width = 50, height = 25\<rparr>"
  by (simp add: crop_resize_size_def pil_resize_def int_truediv_def trunc_div_def)

text \<open>
  C4. The result of \<open>__crop\<close> is not always the target box. The offsets of the crop are
  \<open>int((g - t) / 2)\<close> and \<open>int((g + t) / 2)\<close>, which truncate toward zero: when the scaled
  side \<open>g\<close> is shorter than the target side \<open>t\<close> and their difference is odd, the box is
  one pixel short. A portrait source of 100 by 200 with the target 50 by 50 gives 50 by 49,
  and a square source of 100 by 100 with the target 51 by 50 gives 50 by 50.
\<close>

theorem crop_misses_target_size:
  "crop \<lparr>width = 100, height = 200\<rparr> (50, 50) = Inr \<lparr>width = 50, height = 49\<rparr> \<and>
   crop \<lparr>width = 100, height = 100\<rparr> (51, 50) = Inr \<lparr>width = 50, height = 50\<rparr>"
  by (simp add: crop_def crop_resize_size_def crop_box_def pil_resize_def pil_crop_def
                int_truediv_def trunc_div_def)

section \<open>Properties of process on image records\<close>

text \<open>What a successful \<open>process\<close> changes: the properties become the rendition plan, and
  the state stays what it was.\<close>

lemma image_process_result:
  assumes "image_process cls w self = Inr (self1, w1)"
    and "DESTINATION_PATH_PATTERN cls \<noteq> []" and "PROCESS_PARAMS cls \<noteq> []"
  shows "format_transformation_properties cls w self = Inr (properties self1) \<and>
         self1 = self\<lparr>properties := properties self1\<rparr>"
  using assms
  by (auto simp: image_process_def Let_def split: if_splits sum.splits jvalue.splits)

lemma image_process_state:
  "image_process cls w self = Inr (self1, w1) \<Longrightarrow> state self1 = state self"
  by (auto simp: image_process_def Let_def split: if_splits sum.splits jvalue.splits)

text \<open>
  C2. The claim has a successful \<open>process\<close> replace the properties by the rendition plan
  and move the state to \<open>published\<close>. \<open>Image.process\<close> does the first and never assigns
  \<open>state\<close>: on a draft image with one thumbnail rendition the call succeeds, writes the
  rendition, stores the plan, and the record is still a draft. (The docstring of
  \<open>Media.process\<close> lists setting the state to \<open>published\<close>, and \<open>process\<close> of the audio
  and video classes does it.)
\<close>

theorem image_process_leaves_state_draft:
  "PROCESS_PARAMS image_with_thumb \<noteq> [] \<and> DESTINATION_PATH_PATTERN image_with_thumb \<noteq> [] \<and>
   URL_PATTERN image_with_thumb \<noteq> [] \<and> state url_image = ''draft'' \<and>
   (case image_process image_with_thumb later_world url_image of
      Inl e \<Rightarrow> False
    | Inr (self1, w1) \<Rightarrow>
        properties self1 = thumb_plan \<and> state self1 = ''draft'' \<and>
        files w1 ''/tmp/media/thumb/sample.jpg'' = Some ''jpeg bytes'')"
  by (simp add: image_defs sample_defs)

section \<open>Properties of the metadata synchronisation\<close>

text \<open>The video class looks tags up within its own media type and creates the missing
  ones, and it links no tag to the record.\<close>

lemma video_genres_tags_links:
  "video_genres_tags tag_list w v = Inr (names, w1) \<Longrightarrow> media_tag_table w1 = media_tag_table w"
proof (induction tag_list w v arbitrary: names w1 rule: video_genres_tags.induct)
  case (2 tag_list w tg v)
  define tg1 where "tg1 = (if tg \<notin> set tag_list then lower (strip tg) else tg)"
  define w0 where "w0 = (if tg \<notin> set tag_list \<and> tg1 \<noteq> [] then snd (insert_tag w tg1 ''video'') else w)"
  have t: "media_tag_table w0 = media_tag_table w"
    by (simp add: w0_def insert_tag_def Let_def)
  from "2.prems" obtain gs where "video_genres_tags tag_list w0 v = Inr (gs, w1)"
    by (simp add: Let_def tg1_def [symmetric] w0_def [symmetric] split: sum.splits prod.splits)
  from "2.IH" [OF tg1_def w0_def this] t show ?case by simp
qed simp_all

lemma video_write_fields_links:
  "video_write_fields tag_list items w f = Inr (w1, f1) \<Longrightarrow> media_tag_table w1 = media_tag_table w"
proof (induction items arbitrary: w f w1 f1)
  case Nil
  then show ?case by simp
next
  case (Cons item items)
  obtain field v where item: "item = (field, v)" by (cases item)
  show ?case
  proof (cases "\<exists>tokens. v = JList tokens \<and> field = ''genres''")
    case True
    then obtain tokens where v: "v = JList tokens" "field = ''genres''" by blast
    from Cons.prems obtain gs w0 where
      g: "video_genres_tags tag_list w tokens = Inr (gs, w0)" and
      r: "video_write_fields tag_list items w0 (setattr f field (JList gs)) = Inr (w1, f1)"
      unfolding item v by (simp split: sum.splits prod.splits)
    from Cons.IH [OF r] video_genres_tags_links [OF g] show ?thesis by simp
  next
    case False
    with Cons.prems have "video_write_fields tag_list items w (setattr f field v) = Inr (w1, f1)"
      unfolding item by (cases v) simp_all
    from Cons.IH [OF this] show ?thesis .
  qed
qed

lemma video_update_links_no_tag:
  assumes "video_before_update_orm_event w target = Inr (target1, w1)"
  shows "media_tag_table w1 = media_tag_table w"
proof (cases "meta target = []")
  case True
  with assms show ?thesis by (simp add: video_before_update_orm_event_def Let_def)
next
  case False
  with assms obtain path f w0 f1 where
    "video_write_fields (map name (filter (\<lambda>t. tag_media_type t = ''video'') (tag_table w)))
       (meta target) w f = Inr (w0, f1)"
    "w1 = w0\<lparr>media_files := (media_files w0)(path := Some f1)\<rparr>"
    by (auto simp: video_before_update_orm_event_def video_write_metadata_to_source_def Let_def
             split: option.splits sum.splits)
  with video_write_fields_links show ?thesis by fastforce
qed

text \<open>
  C6. The claim has each token looked up by name and media type, within the media type of
  the record. The audio class looks the token up by name alone
  (\<open>filter_by(name=tag_name)\<close>): for an audio record whose genres are \<open>rock\<close>, in a
  registry whose only tag named \<open>rock\<close> belongs to the images, the update finds that tag,
  creates no audio tag and links the image tag to the audio record.
\<close>

theorem audio_links_tag_of_other_media_type:
  "media_type rock_audio = ''audio'' \<and> tag_table rock_world = [image_rock_tag] \<and>
   tag_media_type image_rock_tag = ''image'' \<and>
   (case audio_before_update_orm_event rock_world rock_audio of
      Inl e \<Rightarrow> False
    | Inr (target, w) \<Rightarrow>
        tag_table w = [image_rock_tag] \<and>
        media_tag_table w = [(uuid rock_audio, tag_uuid image_rock_tag)] \<and>
        tags w target = [image_rock_tag])"
  by code_simp

text \<open>Where the update is repeatable: with a token that is already lower-case and trimmed,
  the second update finds the tag of the first and leaves the record, the tags and the
  file as they were.\<close>

lemma audio_update_twice_same_for_clean_token:
  "(case audio_before_update_orm_event audio_world rock_audio of
      Inl e \<Rightarrow> False
    | Inr (target1, w1) \<Rightarrow>
        tags w1 target1 = [\<lparr>tag_uuid = 8, name = ''rock'', tag_media_type = ''audio''\<rparr>] \<and>
        (case audio_before_update_orm_event w1 target1 of
           Inl e \<Rightarrow> False
         | Inr (target2, w2) \<Rightarrow>
             target2 = target1 \<and> tag_table w2 = tag_table w1 \<and>
             media_tag_table w2 = media_tag_table w1 \<and>
             media_files w2 ''/srv/audio/song.ogg'' = media_files w1 ''/srv/audio/song.ogg''))"
  by code_simp

text \<open>
  C7. The claim has a second update with the same \<open>meta\<close> leave the tags of the record as
  the first update left them. A token is looked up as it is written and a missing tag is
  inserted under its cleaned name, so a token such as \<open>Rock\<close> is never found again: the
  first update inserts two tags named \<open>rock\<close> and links the second, the next update
  inserts two more and links the fourth. The record holds another tag after the second
  update than after the first, and the tag table has grown from two rows to four. (The
  names of the linked tags and the fields written to the file are the same both times.)
\<close>

theorem audio_update_twice_changes_tags:
  "(case audio_before_update_orm_event audio_world capital_rock_audio of
      Inl e \<Rightarrow> False
    | Inr (target1, w1) \<Rightarrow>
        meta target1 = meta capital_rock_audio \<and>
        tags w1 target1 = [\<lparr>tag_uuid = 9, name = ''rock'', tag_media_type = ''audio''\<rparr>] \<and>
        length (tag_table w1) = 2 \<and>
        (case audio_before_update_orm_event w1 target1 of
           Inl e \<Rightarrow> False
         | Inr (target2, w2) \<Rightarrow>
             tags w2 target2 = [\<lparr>tag_uuid = 11, name = ''rock'', tag_media_type = ''audio''\<rparr>] \<and>
             tags w2 target2 \<noteq> tags w1 target1 \<and>
             length (tag_table w2) = 4 \<and>
             map name (tags w2 target2) = map name (tags w1 target1) \<and>
             media_files w2 ''/srv/audio/song.ogg'' = media_files w1 ''/srv/audio/song.ogg''))"
  by code_simp

section \<open>Properties of process on audio and video records\<close>

text \<open>
  C10. \<open>process\<close> of an audio or of a video record writes the \<open>state\<close> field only: the state
  is \<open>published\<close> afterwards, every other field and the tags of the record are what they
  were, and a record that is already \<open>published\<close> is returned as it is.
\<close>

theorem audio_video_process_frame:
  "(\<forall>p \<in> {audio_process, video_process}.
      state (p self) = ''published'' \<and>
      file (p self) = file self \<and> file_path (p self) = file_path self \<and>
      file_url (p self) = file_url self \<and> filename (p self) = filename self \<and>
      meta (p self) = meta self \<and> properties (p self) = properties self \<and>
      uuid (p self) = uuid self \<and> media_type (p self) = media_type self \<and>
      edit_date (p self) = edit_date self \<and>
      tags w (p self) = tags w self \<and>
      p self = self\<lparr>state := ''published''\<rparr> \<and>
      (state self = ''published'' \<longrightarrow> p self = self))"
  by (simp add: audio_process_def video_process_def tags_def)

theorem audio_video_process_frame_witness:
  "audio_process \<in> {audio_process, video_process} \<and>
   video_process \<in> {audio_process, video_process} \<and>
   audio_process draft_audio = draft_audio\<lparr>state := ''published''\<rparr> \<and>
   state (draft_audio\<lparr>state := ''published''\<rparr>) = ''published'' \<and>
   video_process (draft_audio\<lparr>state := ''published''\<rparr>) = draft_audio\<lparr>state := ''published''\<rparr>"
  using audio_video_process_frame [of draft_audio sample_world]
        audio_video_process_frame [of "draft_audio\<lparr>state := ''published''\<rparr>" sample_world]
  by simp

end
